theory Spec2Isabelle
  imports Main
begin

section \<open>Document model\<close>

text \<open>
  The editor component (\<^verbatim>\<open>src/TextEditor.js\<close>, three generations of the same class)
  works on the document values of its rich-text engine. A block is kept character by
  character: every character carries its inline styles and at most one entity key, so a
  run is a maximal stretch of characters with the same metadata.
\<close>

record entityRecord =
  etype :: string
  mutability :: string
  href :: string
  created :: string

record characterMetadata =
  ch :: char
  styles :: "string list"
  entity :: "string option"

record contentBlock =
  blockKey :: string
  blockType :: string
  characterList :: "characterMetadata list"

record contentState =
  blockMap :: "contentBlock list"
  entityMap :: "(string \<times> entityRecord) list"

record selectionState =
  anchorKey :: string
  anchorOffset :: nat
  focusKey :: string
  focusOffset :: nat
  isBackward :: bool
  hasFocus :: bool

record editorState =
  currentContent :: contentState
  selection :: selectionState

definition getStartKey :: "selectionState \<Rightarrow> string" where
  "getStartKey s = (if isBackward s then focusKey s else anchorKey s)"

definition getStartOffset :: "selectionState \<Rightarrow> nat" where
  "getStartOffset s = (if isBackward s then focusOffset s else anchorOffset s)"

definition getEndKey :: "selectionState \<Rightarrow> string" where
  "getEndKey s = (if isBackward s then anchorKey s else focusKey s)"

definition getEndOffset :: "selectionState \<Rightarrow> nat" where
  "getEndOffset s = (if isBackward s then anchorOffset s else focusOffset s)"

definition isCollapsed :: "selectionState \<Rightarrow> bool" where
  "isCollapsed s \<longleftrightarrow> anchorKey s = focusKey s \<and> anchorOffset s = focusOffset s"

definition getBlockForKey :: "contentState \<Rightarrow> string \<Rightarrow> contentBlock option" where
  "getBlockForKey c k = find (\<lambda>b. blockKey b = k) (blockMap c)"

definition getEntity :: "contentState \<Rightarrow> string \<Rightarrow> entityRecord option" where
  "getEntity c k = map_of (entityMap c) k"

definition blockText :: "contentBlock \<Rightarrow> string" where
  "blockText b = map ch (characterList b)"

section \<open>Values crossing the component boundary\<close>

text \<open>
  \<^verbatim>\<open>props.value\<close> is declared \<^verbatim>\<open>PropTypes.any\<close>, and the value handed to
  \<^verbatim>\<open>onChange\<close> is a string, a raw object or a document, depending on \<^verbatim>\<open>props.type\<close>.
  Numbers are kept as integers plus NaN; only their truthiness is used.
\<close>

datatype jsvalue =
    JUndefined
  | JNull
  | JBool bool
  | JNum int
  | JNaN
  | JStr string
  | JArr "jsvalue list"
  | JObj "(string \<times> jsvalue) list"
  | JContent contentState

fun truthy :: "jsvalue \<Rightarrow> bool" where
  "truthy JUndefined = False"
| "truthy JNull = False"
| "truthy (JBool b) = b"
| "truthy (JNum n) = (n \<noteq> 0)"
| "truthy JNaN = False"
| "truthy (JStr s) = (s \<noteq> [])"
| "truthy (JArr xs) = True"
| "truthy (JObj fs) = True"
| "truthy (JContent c) = True"

datatype exn = Exn string

datatype modalOutcome = Resolved "string option" | Rejected "string option"

record props =
  value_prop :: jsvalue
  type_prop :: string
  editable :: bool
  onlyInline :: bool
  convertLinksInline :: bool
  onChange_is_function :: bool

section \<open>Collaborators\<close>

text \<open>
  Everything the component imports and calls without defining it: the primitives of the
  rich-text engine, the format parsers and serializers, the helpers of \<^verbatim>\<open>./lib\<close> and
  the link dialog. They are parameters of the model. A parser may throw, so it returns
  \<open>exn + contentState\<close>. \<^verbatim>\<open>ModalActions.open\<close> is the one suspension point: it answers
  \<open>Resolved l\<close> when the dialog is confirmed and \<open>Rejected l\<close> when it is dismissed;
  \<open>l\<close> is the href of the dialog state that the dialog passed to \<^verbatim>\<open>onConfirm\<close>
  meanwhile, if it called it.
\<close>

record engine =
  generateRandomKey :: "nat \<Rightarrow> string"
  convertFromRaw :: "jsvalue \<Rightarrow> exn + contentState"
  convertFromHTML :: "jsvalue \<Rightarrow> exn + contentState"
  convertToRaw :: "contentState \<Rightarrow> jsvalue"
  convertToHTML :: "contentState \<Rightarrow> jsvalue"
  lib_convertContentTo :: "contentState \<Rightarrow> string \<Rightarrow> jsvalue"
  convertStyles :: "editorState \<Rightarrow> selectionState \<Rightarrow> bool \<Rightarrow> editorState"
  convertLinks :: "editorState \<Rightarrow> editorState"
  RichUtils_handleKeyCommand :: "editorState \<Rightarrow> string \<Rightarrow> editorState option"
  RichUtils_toggleInlineStyle :: "editorState \<Rightarrow> string \<Rightarrow> editorState"
  RichUtils_toggleBlockType :: "editorState \<Rightarrow> string \<Rightarrow> editorState"
  Modifier_splitBlock :: "contentState \<Rightarrow> selectionState \<Rightarrow> contentState"
  Modifier_insertText :: "contentState \<Rightarrow> selectionState \<Rightarrow> string \<Rightarrow> string \<Rightarrow> contentState"
  EditorState_push :: "editorState \<Rightarrow> contentState \<Rightarrow> string \<Rightarrow> editorState"
  createEntity :: "contentState \<Rightarrow> entityRecord \<Rightarrow> contentState"
  getLastCreatedEntityKey :: "contentState \<Rightarrow> string"
  linkify_match :: "string \<Rightarrow> string option"
  ModalActions_open :: "string \<Rightarrow> string \<Rightarrow> modalOutcome"

section \<open>Format converters of the component\<close>

text \<open>
  \<^verbatim>\<open>ContentState.createFromText(text)\<close> of the engine: the text is cut at
  \<^verbatim>\<open>/\r\n?|\n/g\<close> and every piece becomes an unstyled block with a fresh key and no
  entity. The component only ever calls it with the empty string.
\<close>

fun splitLines :: "string \<Rightarrow> string list" where
  "splitLines [] = [[]]"
| "splitLines (c # cs) =
     (if c = CHR 0x0D then
        (case cs of
           [] \<Rightarrow> [] # splitLines cs
         | d # ds \<Rightarrow> if d = CHR 0x0A then [] # splitLines ds else [] # splitLines cs)
      else if c = CHR 0x0A then [] # splitLines cs
      else (case splitLines cs of [] \<Rightarrow> [[c]] | l # ls \<Rightarrow> (c # l) # ls))"

definition ContentState_createFromText :: "engine \<Rightarrow> string \<Rightarrow> contentState" where
  "ContentState_createFromText eng txt =
     (let strings = splitLines txt
      in \<lparr>blockMap =
            map (\<lambda>(i, s). \<lparr>blockKey = generateRandomKey eng i, blockType = ''unstyled'',
                           characterList = map (\<lambda>c. \<lparr>ch = c, styles = [], entity = None\<rparr>) s\<rparr>)
                (zip [0..<length strings] strings),
          entityMap = []\<rparr>)"

text \<open>
  \<^verbatim>\<open>convertContentFrom(props)\<close>, TextEditor.js lines 109-119 (TextEditor.jsx lines 81-91
  has the same four branches). No branch is wrapped in an exception handler: what a
  parser throws leaves the function.
\<close>

definition convertContentFrom :: "engine \<Rightarrow> props \<Rightarrow> exn + jsvalue" where
  "convertContentFrom eng p =
     (if \<not> truthy (value_prop p) then Inr (JContent (ContentState_createFromText eng ''''))
      else if type_prop p = ''json'' then map_sum id JContent (convertFromRaw eng (value_prop p))
      else if type_prop p = ''html'' then map_sum id JContent (convertFromHTML eng (value_prop p))
      else Inr (value_prop p))"

text \<open>
  \<^verbatim>\<open>convertHTMLToString(str)\<close>, TextEditor.js lines 144-149. A value that is not a
  string is returned as it is. On a string every match of \<^verbatim>\<open>/<\/?[^>]+(>|$)/g\<close> is
  deleted: a match starts at a \<^verbatim>\<open><\<close> followed by at least one character other than
  \<^verbatim>\<open>>\<close> (the optional slash is such a character), runs over all of them and takes
  the closing \<^verbatim>\<open>>\<close> when there is one.
\<close>

function stripTags :: "string \<Rightarrow> string" where
  "stripTags [] = []"
| "stripTags (c # cs) =
     (if c = CHR ''<'' \<and> cs \<noteq> [] \<and> hd cs \<noteq> CHR ''>''
      then stripTags (drop 1 (dropWhile (\<lambda>x. x \<noteq> CHR ''>'') cs))
      else c # stripTags cs)"
  by pat_completeness auto
termination
proof (relation "measure length")
  show "wf (measure length)" by simp
next
  fix c :: char and cs :: string
  have "length (dropWhile (\<lambda>x. x \<noteq> CHR ''>'') cs) \<le> length cs"
    by (rule length_dropWhile_le)
  then show "(drop 1 (dropWhile (\<lambda>x. x \<noteq> CHR ''>'') cs), c # cs) \<in> measure length"
    by simp
next
  fix c :: char and cs :: string
  show "(cs, c # cs) \<in> measure length" by simp
qed

definition convertHTMLToString :: "jsvalue \<Rightarrow> jsvalue" where
  "convertHTMLToString str =
     (case str of JStr s \<Rightarrow> JStr (stripTags s) | _ \<Rightarrow> str)"

text \<open>
  \<^verbatim>\<open>convertContentTo()\<close>, TextEditor.js lines 124-136; \<open>content\<close> is
  \<^verbatim>\<open>this.state.editorState.getCurrentContent()\<close>, a document object.
\<close>

definition convertContentTo :: "engine \<Rightarrow> props \<Rightarrow> contentState \<Rightarrow> jsvalue" where
  "convertContentTo eng p content =
     (if type_prop p = ''json'' then convertToRaw eng content
      else if type_prop p = ''html'' then convertToHTML eng content
      else if type_prop p = ''text'' then convertHTMLToString (JContent content)
      else JContent content)"

text \<open>\<^verbatim>\<open>convertContentTo()\<close> of TextEditor.jsx, lines 96-105: no \<^verbatim>\<open>text\<close> branch.\<close>

definition convertContentTo_jsx :: "engine \<Rightarrow> props \<Rightarrow> contentState \<Rightarrow> jsvalue" where
  "convertContentTo_jsx eng p content =
     (if type_prop p = ''json'' then convertToRaw eng content
      else if type_prop p = ''html'' then convertToHTML eng content
      else JContent content)"

section \<open>Engine primitives and helpers used by the link actions\<close>

text \<open>
  \<^verbatim>\<open>RichUtils.toggleLink(editorState, targetSelection, entityKey)\<close> belongs to the
  rich-text engine. It is modelled after the engine's documented behaviour: the entity
  key (or null) is written on every character from the start to the end of the target
  selection, block after block, the entity table is left alone, and the pushed state
  takes the target selection as its selection. A selection names existing blocks and
  offsets within their text; offsets beyond a block's text touch no character here.
\<close>

definition applyEntityToContentBlock ::
    "contentBlock \<Rightarrow> nat \<Rightarrow> nat \<Rightarrow> string option \<Rightarrow> contentBlock" where
  "applyEntityToContentBlock b start end' k =
     b\<lparr>characterList :=
         map (\<lambda>(i, m). if start \<le> i \<and> i < end' then m\<lparr>entity := k\<rparr> else m)
             (zip [0..<length (characterList b)] (characterList b))\<rparr>"

definition Modifier_applyEntity ::
    "contentState \<Rightarrow> selectionState \<Rightarrow> string option \<Rightarrow> contentState" where
  "Modifier_applyEntity c sel k =
     (let startKey = getStartKey sel; startOffset = getStartOffset sel;
          endKey = getEndKey sel; endOffset = getEndOffset sel;
          picked = takeWhile (\<lambda>b. blockKey b \<noteq> endKey)
                     (dropWhile (\<lambda>b. blockKey b \<noteq> startKey) (blockMap c))
                   @ (case getBlockForKey c endKey of None \<Rightarrow> [] | Some b \<Rightarrow> [b]);
          newBlocks =
            map (\<lambda>b. applyEntityToContentBlock b
                        (if blockKey b = startKey then startOffset else 0)
                        (if blockKey b = endKey then endOffset else length (characterList b)) k)
                picked
      in c\<lparr>blockMap :=
             map (\<lambda>b. case find (\<lambda>n. blockKey n = blockKey b) newBlocks of
                         None \<Rightarrow> b | Some n \<Rightarrow> n)
                 (blockMap c)\<rparr>)"

definition RichUtils_toggleLink ::
    "editorState \<Rightarrow> selectionState \<Rightarrow> string option \<Rightarrow> editorState" where
  "RichUtils_toggleLink es targetSelection entityKey =
     es\<lparr>currentContent := Modifier_applyEntity (currentContent es) targetSelection entityKey,
        selection := targetSelection\<rparr>"

text \<open>
  Modelled from the spec: \<^verbatim>\<open>getLink\<close> of \<^verbatim>\<open>./lib/convertLinks\<close> is imported by
  TextEditor.js and is not among the sources. The spec: it "resolves the link entity (if
  any) covering a collapsed cursor or overlapping a non-collapsed selection"; the caller
  reads \<^verbatim>\<open>.entity\<close> and \<^verbatim>\<open>.selection\<close> of the result and takes the latter as the
  full link ("If selection is collapsed, find full link"). Here a link covers a cursor
  when the character after the cursor, or else the one before it, carries a \<^verbatim>\<open>LINK\<close>
  entity; it overlaps a selection when a selected character of the start block does.
  The link's selection is the maximal stretch of characters around that character that
  carry the same key.
\<close>

record link =
  link_entity :: entityRecord
  link_selection :: selectionState

definition linkKeys :: "contentState \<Rightarrow> contentBlock \<Rightarrow> string option list" where
  "linkKeys c b =
     map (\<lambda>m. case entity m of
                 None \<Rightarrow> None
               | Some k \<Rightarrow> (case getEntity c k of
                              None \<Rightarrow> None
                            | Some e \<Rightarrow> if etype e = ''LINK'' then Some k else None))
         (characterList b)"

definition linkRunAround :: "string option list \<Rightarrow> nat \<Rightarrow> string \<Rightarrow> nat \<times> nat" where
  "linkRunAround ks i k =
     (i - length (takeWhile (\<lambda>x. x = Some k) (rev (take i ks))),
      i + length (takeWhile (\<lambda>x. x = Some k) (drop i ks)))"

definition getLink :: "editorState \<Rightarrow> selectionState \<Rightarrow> link option" where
  "getLink es sel =
     (let c = currentContent es
      in case getBlockForKey c (getStartKey sel) of
           None \<Rightarrow> None
         | Some b \<Rightarrow>
             (let ks = linkKeys c b;
                  startOffset = getStartOffset sel;
                  endOffset = (if getEndKey sel = getStartKey sel then getEndOffset sel
                               else length ks);
                  candidates = (if isCollapsed sel
                                then startOffset # (if 0 < startOffset then [startOffset - 1] else [])
                                else [startOffset..<endOffset])
              in case find (\<lambda>i. i < length ks \<and> ks ! i \<noteq> None) candidates of
                   None \<Rightarrow> None
                 | Some i \<Rightarrow>
                     (case ks ! i of
                        None \<Rightarrow> None
                      | Some k \<Rightarrow>
                          (case getEntity c k of
                             None \<Rightarrow> None
                           | Some e \<Rightarrow>
                               Some \<lparr>link_entity = e,
                                     link_selection =
                                       \<lparr>anchorKey = blockKey b,
                                        anchorOffset = fst (linkRunAround ks i k),
                                        focusKey = blockKey b,
                                        focusOffset = snd (linkRunAround ks i k),
                                        isBackward = False,
                                        hasFocus = hasFocus sel\<rparr>\<rparr>))))"

text \<open>
  \<^verbatim>\<open>String.prototype.trim\<close>: white space and line terminators are removed at both ends.
  Among the code units below 256 these are tab, line feed, vertical tab, form feed,
  carriage return, space and no-break space.
\<close>

definition isWhiteSpace :: "char \<Rightarrow> bool" where
  "isWhiteSpace c \<longleftrightarrow>
     c \<in> {CHR 0x09, CHR 0x0A, CHR 0x0B, CHR 0x0C, CHR 0x0D, CHR 0x20, CHR 0xA0}"

definition trim :: "string \<Rightarrow> string" where
  "trim s = rev (dropWhile isWhiteSpace (rev (dropWhile isWhiteSpace s)))"

section \<open>The component\<close>

text \<open>
  \<^verbatim>\<open>this.state\<close> of the component, and \<open>notified\<close>: the values the host's
  \<^verbatim>\<open>onChange\<close> has received so far, oldest first (each wrapped in a change event by
  the source). \<open>linkState\<close> is null (\<open>None\<close>) until the link dialog reports its state;
  only its \<^verbatim>\<open>href\<close> is read.
\<close>

record component =
  editorState :: editorState
  focus :: bool
  linkState :: "string option"
  notified :: "jsvalue list"

text \<open>
  \<^verbatim>\<open>handleEditorChange(editorState)\<close>, TextEditor.js lines 589-623. \<^verbatim>\<open>setState\<close>
  stores the revision and the focus flag; its callback then calls \<^verbatim>\<open>props.onChange\<close>,
  when that is a function, with the content serialized by \<^verbatim>\<open>convertContentTo\<close> of
  \<^verbatim>\<open>./lib/convert\<close>. There is no test in front of the call.
\<close>

definition handleEditorChange :: "engine \<Rightarrow> props \<Rightarrow> editorState \<Rightarrow> component \<Rightarrow> component" where
  "handleEditorChange eng p es this =
     (let selectionState = selection es;
          focus' = hasFocus selectionState;
          es1 = convertStyles eng es selectionState (\<not> onlyInline p);
          es2 = (if convertLinksInline p then convertLinks eng es1 else es1);
          this' = this\<lparr>editorState := es2, focus := focus'\<rparr>
      in if \<not> onChange_is_function p then this'
         else this'\<lparr>notified := notified this' @
                [lib_convertContentTo eng (currentContent (editorState this')) (type_prop p)]\<rparr>)"

text \<open>\<^verbatim>\<open>handleEditorChange\<close> of the second generation, TextEditor.js lines 182-205.\<close>

definition handleEditorChange_v2 :: "engine \<Rightarrow> props \<Rightarrow> editorState \<Rightarrow> component \<Rightarrow> component" where
  "handleEditorChange_v2 eng p es this =
     (let focus' = hasFocus (selection es);
          this' = this\<lparr>editorState := es, focus := focus'\<rparr>
      in if \<not> onChange_is_function p then this'
         else this'\<lparr>notified := notified this' @
                [convertContentTo eng p (currentContent (editorState this'))]\<rparr>)"

text \<open>\<^verbatim>\<open>handleEditorChange\<close> of TextEditor.jsx, lines 122-145.\<close>

definition handleEditorChange_jsx :: "engine \<Rightarrow> props \<Rightarrow> editorState \<Rightarrow> component \<Rightarrow> component" where
  "handleEditorChange_jsx eng p es this =
     (let focus' = hasFocus (selection es);
          this' = this\<lparr>editorState := es, focus := focus'\<rparr>
      in if \<not> onChange_is_function p then this'
         else this'\<lparr>notified := notified this' @
                [convertContentTo_jsx eng p (currentContent (editorState this'))]\<rparr>)"

text \<open>
  \<^verbatim>\<open>handleKeyCommand(command)\<close>, TextEditor.js lines 560-583: the returned string and
  the component afterwards.
\<close>

definition handleKeyCommand :: "engine \<Rightarrow> props \<Rightarrow> string \<Rightarrow> component \<Rightarrow> string \<times> component" where
  "handleKeyCommand eng p command this =
     (let es = editorState this;
          newEditorStatue = RichUtils_handleKeyCommand eng es command
      in if command = ''split-block'' \<and> type_prop p = ''html'' then
           (let content = Modifier_splitBlock eng (currentContent es) (selection es);
                editor = EditorState_push eng es content ''split-block''
            in (''handled'', handleEditorChange eng p editor this))
         else (case newEditorStatue of
                 Some n \<Rightarrow> (''handled'', handleEditorChange eng p n this)
               | None \<Rightarrow> (''not-handled'', this)))"

text \<open>The same method in the second generation, TextEditor.js lines 154-177.\<close>

definition handleKeyCommand_v2 :: "engine \<Rightarrow> props \<Rightarrow> string \<Rightarrow> component \<Rightarrow> string \<times> component" where
  "handleKeyCommand_v2 eng p command this =
     (let es = editorState this;
          newEditorStatue = RichUtils_handleKeyCommand eng es command
      in if command = ''split-block'' \<and> type_prop p = ''html'' then
           (let content = Modifier_splitBlock eng (currentContent es) (selection es);
                editor = EditorState_push eng es content ''split-block''
            in (''handled'', handleEditorChange_v2 eng p editor this))
         else (case newEditorStatue of
                 Some n \<Rightarrow> (''handled'', handleEditorChange_v2 eng p n this)
               | None \<Rightarrow> (''not-handled'', this)))"

text \<open>
  \<^verbatim>\<open>handleInlineStyleClick\<close> and \<^verbatim>\<open>handleBlockStyleClick\<close>, TextEditor.js lines
  644-669, and TextEditor.jsx lines 158-187 (there \<^verbatim>\<open>event.preventDefault()\<close> is
  called as well, which touches the event only).
\<close>

definition handleInlineStyleClick :: "engine \<Rightarrow> props \<Rightarrow> string \<Rightarrow> component \<Rightarrow> component" where
  "handleInlineStyleClick eng p inlineStyle this =
     (if \<not> editable p then this
      else handleEditorChange eng p
             (RichUtils_toggleInlineStyle eng (editorState this) inlineStyle) this)"

definition handleBlockStyleClick :: "engine \<Rightarrow> props \<Rightarrow> string \<Rightarrow> component \<Rightarrow> component" where
  "handleBlockStyleClick eng p blockStyle this =
     (if \<not> editable p then this
      else handleEditorChange eng p
             (RichUtils_toggleBlockType eng (editorState this) blockStyle) this)"

definition handleInlineStyleClick_jsx :: "engine \<Rightarrow> props \<Rightarrow> string \<Rightarrow> component \<Rightarrow> component" where
  "handleInlineStyleClick_jsx eng p inlineStyle this =
     (if \<not> editable p then this
      else handleEditorChange_jsx eng p
             (RichUtils_toggleInlineStyle eng (editorState this) inlineStyle) this)"

definition handleBlockStyleClick_jsx :: "engine \<Rightarrow> props \<Rightarrow> string \<Rightarrow> component \<Rightarrow> component" where
  "handleBlockStyleClick_jsx eng p blockStyle this =
     (if \<not> editable p then this
      else handleEditorChange_jsx eng p
             (RichUtils_toggleBlockType eng (editorState this) blockStyle) this)"

text \<open>\<^verbatim>\<open>handleLinkChange(state)\<close>, TextEditor.js lines 757-761.\<close>

definition handleLinkChange :: "string \<Rightarrow> component \<Rightarrow> component" where
  "handleLinkChange state this = this\<lparr>linkState := Some state\<rparr>"

text \<open>
  \<^verbatim>\<open>handleLinkClick(linkAction)\<close>, TextEditor.js lines 674-752. \<^verbatim>\<open>DELETE\<close> leaves the
  \<^verbatim>\<open>switch\<close>; \<^verbatim>\<open>EDIT\<close> and every other action except \<^verbatim>\<open>ADD\<close> set the dialog's title
  and default and fall through to \<^verbatim>\<open>ADD\<close>. The \<^verbatim>\<open>then\<close> callback runs when the dialog
  resolves; reading \<^verbatim>\<open>href\<close> of a null \<^verbatim>\<open>linkState\<close> throws inside it, and the
  \<^verbatim>\<open>catch\<close> callback, which does nothing, takes both that and a rejected dialog.
\<close>

definition handleLinkClick :: "engine \<Rightarrow> props \<Rightarrow> string \<Rightarrow> component \<Rightarrow> component" where
  "handleLinkClick eng p linkAction this =
     (if \<not> editable p then this
      else
        (let editorState0 = editorState this;
             selection0 = selection editorState0;
             currentLink = getLink editorState0 selection0;
             currentContent0 = currentContent editorState0;
             selectionState =
               (case currentLink of
                  None \<Rightarrow> selection0
                | Some l \<Rightarrow> if isCollapsed selection0 then link_selection l else selection0)
         in if linkAction = ''DELETE'' then
              handleEditorChange eng p (RichUtils_toggleLink editorState0 selectionState None) this
            else
              (let (title, defaultUrl) =
                     (if linkAction = ''ADD'' then (''Add Link'', [])
                      else (case currentLink of
                              None \<Rightarrow> (''Add Link'', [])
                            | Some l \<Rightarrow> (''Edit Link'', href (link_entity l))))
               in case ModalActions_open eng title defaultUrl of
                    Rejected reported \<Rightarrow>
                      (case reported of None \<Rightarrow> this | Some s \<Rightarrow> handleLinkChange s this)
                  | Resolved reported \<Rightarrow>
                      (let this1 = (case reported of None \<Rightarrow> this | Some s \<Rightarrow> handleLinkChange s this)
                       in case linkState this1 of
                            None \<Rightarrow> this1
                          | Some enteredHref \<Rightarrow>
                              if trim enteredHref \<noteq> [] then
                                (let newHref = (case linkify_match eng enteredHref of
                                                  None \<Rightarrow> enteredHref | Some url \<Rightarrow> url);
                                     contentWithEntity =
                                       createEntity eng currentContent0
                                         \<lparr>etype = ''LINK'', mutability = ''MUTABLE'',
                                          href = newHref, created = ''insert''\<rparr>;
                                     entityKey = getLastCreatedEntityKey eng contentWithEntity;
                                     es1 = (if currentLink \<noteq> None
                                            then RichUtils_toggleLink editorState0 selectionState None
                                            else editorState0);
                                     es2 = (if isCollapsed selectionState then
                                              EditorState_push eng es1
                                                (Modifier_insertText eng currentContent0 selectionState
                                                   newHref entityKey)
                                                ''create-entity''
                                            else EditorState_push eng es1 contentWithEntity
                                                   ''create-entity'');
                                     es3 = RichUtils_toggleLink es2 selectionState (Some entityKey)
                                 in handleEditorChange eng p es3 this1)
                              else
                                handleEditorChange eng p
                                  (RichUtils_toggleLink editorState0 selectionState None) this1))))"

section \<open>Concrete values\<close>

text \<open>
  A one-block document "go a.io x" whose characters 3 to 6 carry the link entity
  \<open>''1''\<close>, a cursor inside the link, and an instance of the collaborators: its JSON
  parser throws on a value without a block array, as the engine's \<^verbatim>\<open>convertFromRaw\<close>
  does when \<^verbatim>\<open>rawState.blocks\<close> is undefined, and its dialog confirms a blank href.
\<close>

definition example_block :: contentBlock where
  "example_block =
     \<lparr>blockKey = ''b1'', blockType = ''unstyled'',
      characterList =
        map (\<lambda>c. \<lparr>ch = c, styles = [], entity = None\<rparr>) ''go ''
        @ map (\<lambda>c. \<lparr>ch = c, styles = [], entity = Some ''1''\<rparr>) ''a.io''
        @ map (\<lambda>c. \<lparr>ch = c, styles = [''BOLD''], entity = None\<rparr>) '' x''\<rparr>"

definition example_entity :: entityRecord where
  "example_entity =
     \<lparr>etype = ''LINK'', mutability = ''MUTABLE'', href = ''http://a.io'', created = ''existing''\<rparr>"

definition example_content :: contentState where
  "example_content = \<lparr>blockMap = [example_block], entityMap = [(''1'', example_entity)]\<rparr>"

definition example_selection :: selectionState where
  "example_selection =
     \<lparr>anchorKey = ''b1'', anchorOffset = 5, focusKey = ''b1'', focusOffset = 5,
      isBackward = False, hasFocus = True\<rparr>"

definition example_editorState :: editorState where
  "example_editorState = \<lparr>currentContent = example_content, selection = example_selection\<rparr>"

definition example_component :: component where
  "example_component =
     \<lparr>editorState = example_editorState, focus = True, linkState = None, notified = []\<rparr>"

definition example_props :: props where
  "example_props =
     \<lparr>value_prop = JStr ''{'', type_prop = ''html'', editable = True, onlyInline = False,
      convertLinksInline = True, onChange_is_function = True\<rparr>"

definition example_toHTML :: "contentState \<Rightarrow> jsvalue" where
  "example_toHTML c = JStr (concat (map (\<lambda>b. ''<p>'' @ blockText b @ ''</p>'') (blockMap c)))"

definition example_toRaw :: "contentState \<Rightarrow> jsvalue" where
  "example_toRaw c =
     JObj [(''blocks'', JArr (map (\<lambda>b. JStr (blockText b)) (blockMap c))),
           (''entityMap'', JObj (map (\<lambda>(k, e). (k, JStr (href e))) (entityMap c)))]"

definition example_fromRaw :: "jsvalue \<Rightarrow> exn + contentState" where
  "example_fromRaw v =
     (case v of
        JObj fs \<Rightarrow> (case map_of fs ''blocks'' of
                     Some (JArr bs) \<Rightarrow> Inr \<lparr>blockMap = [], entityMap = []\<rparr>
                   | _ \<Rightarrow> Inl (Exn ''TypeError''))
      | _ \<Rightarrow> Inl (Exn ''TypeError''))"

definition example_engine :: engine where
  "example_engine =
     \<lparr>generateRandomKey = (\<lambda>i. ''k'' @ replicate i CHR ''0''),
      convertFromRaw = example_fromRaw,
      convertFromHTML = (\<lambda>v. case v of
                           JStr s \<Rightarrow> Inr \<lparr>blockMap = [], entityMap = []\<rparr>
                         | _ \<Rightarrow> Inl (Exn ''TypeError'')),
      convertToRaw = example_toRaw,
      convertToHTML = example_toHTML,
      lib_convertContentTo = (\<lambda>c t. if t = ''html'' then example_toHTML c else JContent c),
      convertStyles = (\<lambda>es sel allowBlock. es),
      convertLinks = (\<lambda>es. es),
      RichUtils_handleKeyCommand = (\<lambda>es command. if command = ''bold'' then Some es else None),
      RichUtils_toggleInlineStyle = (\<lambda>es style. es),
      RichUtils_toggleBlockType = (\<lambda>es t. es),
      Modifier_splitBlock = (\<lambda>c sel. c),
      Modifier_insertText = (\<lambda>c sel s k. c),
      EditorState_push = (\<lambda>es c t. es\<lparr>currentContent := c\<rparr>),
      createEntity = (\<lambda>c e. c\<lparr>entityMap := entityMap c @ [(''new'', e)]\<rparr>),
      getLastCreatedEntityKey = (\<lambda>c. ''new''),
      linkify_match = (\<lambda>s. None),
      ModalActions_open = (\<lambda>title url. Resolved (Some ''  ''))\<rparr>"

lemmas example_defs = example_block_def example_entity_def example_content_def
  example_selection_def example_editorState_def example_component_def example_props_def
  example_toHTML_def example_toRaw_def example_fromRaw_def example_engine_def

section \<open>Auxiliary facts\<close>

lemma takeWhile_all_nth:
  "n < length (takeWhile P xs) \<Longrightarrow> P (xs ! n)"
proof -
  assume n: "n < length (takeWhile P xs)"
  then have "takeWhile P xs ! n \<in> set (takeWhile P xs)" by (rule nth_mem)
  then have "P (takeWhile P xs ! n)" by (auto dest: set_takeWhileD)
  with n show ?thesis by (simp add: takeWhile_nth)
qed

lemma linkRunAround_bounds:
  assumes "i < length ks" and "ks ! i = Some k"
  shows "fst (linkRunAround ks i k) \<le> i"
    and "i < snd (linkRunAround ks i k)"
    and "snd (linkRunAround ks i k) \<le> length ks"
proof -
  show "fst (linkRunAround ks i k) \<le> i" by (simp add: linkRunAround_def)
  have d: "drop i ks = ks ! i # drop (Suc i) ks"
    using assms(1) by (simp add: Cons_nth_drop_Suc)
  have "0 < length (takeWhile (\<lambda>x. x = Some k) (drop i ks))"
    by (subst d) (simp add: assms(2))
  then show "i < snd (linkRunAround ks i k)" by (simp add: linkRunAround_def)
  have "length (takeWhile (\<lambda>x. x = Some k) (drop i ks)) \<le> length (drop i ks)"
    by (rule length_takeWhile_le)
  then show "snd (linkRunAround ks i k) \<le> length ks"
    using assms(1) by (simp add: linkRunAround_def)
qed

lemma linkRunAround_inside:
  assumes "i < length ks"
    and "fst (linkRunAround ks i k) \<le> j" and "j < snd (linkRunAround ks i k)"
  shows "ks ! j = Some k"
proof (cases "i \<le> j")
  case True
  have "j - i < length (takeWhile (\<lambda>x. x = Some k) (drop i ks))"
    using assms(3) True by (simp add: linkRunAround_def)
  then have "drop i ks ! (j - i) = Some k" by (rule takeWhile_all_nth)
  then show ?thesis using True assms(1) by simp
next
  case False
  then have ji: "j < i" by simp
  let ?xs = "rev (take i ks)"
  have len: "length ?xs = i" using assms(1) by simp
  have "i - Suc j < length (takeWhile (\<lambda>x. x = Some k) ?xs)"
    using assms(2) ji by (simp add: linkRunAround_def)
  then have "?xs ! (i - Suc j) = Some k" by (rule takeWhile_all_nth)
  moreover have "?xs ! (i - Suc j) = take i ks ! (i - Suc (i - Suc j))"
    using ji assms(1) by (simp add: rev_nth)
  moreover have "i - Suc (i - Suc j) = j" using ji by arith
  ultimately show ?thesis using ji by simp
qed

lemma linkRunAround_maximal_right:
  assumes "i < length ks" and "snd (linkRunAround ks i k) < length ks"
  shows "ks ! snd (linkRunAround ks i k) \<noteq> Some k"
proof -
  let ?n = "length (takeWhile (\<lambda>x. x = Some k) (drop i ks))"
  have "?n < length (drop i ks)"
    using assms by (simp add: linkRunAround_def)
  then have "drop i ks ! ?n \<noteq> Some k" by (rule nth_length_takeWhile)
  moreover have "i + ?n \<le> length ks" using assms by (simp add: linkRunAround_def)
  ultimately show ?thesis by (simp add: linkRunAround_def)
qed

lemma linkRunAround_maximal_left:
  assumes "i < length ks" and "0 < fst (linkRunAround ks i k)"
  shows "ks ! (fst (linkRunAround ks i k) - 1) \<noteq> Some k"
proof -
  let ?xs = "rev (take i ks)"
  let ?n = "length (takeWhile (\<lambda>x. x = Some k) ?xs)"
  have len: "length ?xs = i" using assms(1) by simp
  have s: "fst (linkRunAround ks i k) = i - ?n" by (simp add: linkRunAround_def)
  have n: "?n < length ?xs" using assms(2) len unfolding s by arith
  then have "?xs ! ?n \<noteq> Some k" by (rule nth_length_takeWhile)
  moreover have "?xs ! ?n = take i ks ! (i - Suc ?n)"
    using n len by (simp add: rev_nth)
  moreover have "i - Suc ?n < i" using n len by arith
  ultimately have "ks ! (i - Suc ?n) \<noteq> Some k" by simp
  then show ?thesis unfolding s by simp
qed

lemma applyEntityToContentBlock_simps:
  "blockKey (applyEntityToContentBlock b s t k) = blockKey b"
  "blockType (applyEntityToContentBlock b s t k) = blockType b"
  "length (characterList (applyEntityToContentBlock b s t k)) = length (characterList b)"
  by (simp_all add: applyEntityToContentBlock_def)

lemma applyEntityToContentBlock_nth:
  "i < length (characterList b) \<Longrightarrow>
     characterList (applyEntityToContentBlock b s t k) ! i =
       (if s \<le> i \<and> i < t then (characterList b ! i)\<lparr>entity := k\<rparr> else characterList b ! i)"
  by (simp add: applyEntityToContentBlock_def)

lemma find_Some_dropWhile:
  "find P xs = Some x \<Longrightarrow> \<exists>ys. dropWhile (\<lambda>y. \<not> P y) xs = x # ys \<and> P x"
  by (induction xs) (auto split: if_splits)

lemma find_map_replace:
  "find P xs = Some x \<Longrightarrow> P y \<Longrightarrow>
     find P (map (\<lambda>b. if P b then y else b) xs) = Some y"
  by (induction xs) (auto split: if_splits)

lemma Modifier_applyEntity_one_block:
  assumes "getStartKey sel = getEndKey sel"
    and "getBlockForKey c (getStartKey sel) = Some b"
  shows "blockMap (Modifier_applyEntity c sel k) =
           map (\<lambda>x. if blockKey x = getStartKey sel
                    then applyEntityToContentBlock b (getStartOffset sel) (getEndOffset sel) k
                    else x)
               (blockMap c)"
proof -
  from assms(2) have fb: "find (\<lambda>x. blockKey x = getStartKey sel) (blockMap c) = Some b"
    by (simp add: getBlockForKey_def)
  from find_Some_dropWhile [OF fb] obtain ys where
    dw: "dropWhile (\<lambda>y. blockKey y \<noteq> getStartKey sel) (blockMap c) = b # ys"
    and kb: "blockKey b = getStartKey sel" by blast
  have ek: "getEndKey sel = getStartKey sel" using assms(1) by simp
  have picked: "takeWhile (\<lambda>x. blockKey x \<noteq> getStartKey sel)
                  (dropWhile (\<lambda>x. blockKey x \<noteq> getStartKey sel) (blockMap c)) = []"
    unfolding dw using kb by simp
  show ?thesis
    unfolding Modifier_applyEntity_def Let_def ek picked assms(2)
    by (simp add: kb applyEntityToContentBlock_simps)
qed

lemma Modifier_applyEntity_entityMap:
  "entityMap (Modifier_applyEntity c sel k) = entityMap c"
  by (simp add: Modifier_applyEntity_def Let_def)

lemma Modifier_applyEntity_getBlock:
  assumes "getStartKey sel = getEndKey sel"
    and "getBlockForKey c (getStartKey sel) = Some b"
  shows "getBlockForKey (Modifier_applyEntity c sel k) (getStartKey sel) =
           Some (applyEntityToContentBlock b (getStartOffset sel) (getEndOffset sel) k)"
proof -
  from assms(2) have fb: "find (\<lambda>x. blockKey x = getStartKey sel) (blockMap c) = Some b"
    by (simp add: getBlockForKey_def)
  have "find (\<lambda>x. blockKey x = getStartKey sel)
          (map (\<lambda>x. if blockKey x = getStartKey sel
                    then applyEntityToContentBlock b (getStartOffset sel) (getEndOffset sel) k
                    else x) (blockMap c))
        = Some (applyEntityToContentBlock b (getStartOffset sel) (getEndOffset sel) k)"
    using fb
    by (rule find_map_replace) (use fb in \<open>auto simp add: applyEntityToContentBlock_simps find_Some_iff\<close>)
  then show ?thesis
    by (simp add: getBlockForKey_def Modifier_applyEntity_one_block [OF assms])
qed

lemma length_linkKeys: "length (linkKeys c b) = length (characterList b)"
  by (simp add: linkKeys_def)

lemma linkKeys_nth_Some:
  "i < length (characterList b) \<Longrightarrow> linkKeys c b ! i = Some k \<Longrightarrow>
     entity (characterList b ! i) = Some k"
  by (auto simp add: linkKeys_def split: option.splits if_splits)

lemma linkKeys_nth_link:
  "i < length (characterList b) \<Longrightarrow> entity (characterList b ! i) = Some k \<Longrightarrow>
     getEntity c k = Some e \<Longrightarrow> etype e = ''LINK'' \<Longrightarrow> linkKeys c b ! i = Some k"
  by (simp add: linkKeys_def)

lemma getLink_collapsed_on_link:
  assumes "isCollapsed sel"
    and "getBlockForKey (currentContent es) (getStartKey sel) = Some b"
    and "getStartOffset sel < length (characterList b)"
    and "linkKeys (currentContent es) b ! getStartOffset sel = Some k"
    and "getEntity (currentContent es) k = Some e"
  shows "getLink es sel =
           Some \<lparr>link_entity = e,
                 link_selection =
                   \<lparr>anchorKey = blockKey b,
                    anchorOffset = fst (linkRunAround (linkKeys (currentContent es) b) (getStartOffset sel) k),
                    focusKey = blockKey b,
                    focusOffset = snd (linkRunAround (linkKeys (currentContent es) b) (getStartOffset sel) k),
                    isBackward = False,
                    hasFocus = hasFocus sel\<rparr>\<rparr>"
  using assms by (simp add: getLink_def Let_def length_linkKeys)

lemma getBlockForKey_blockKey:
  "getBlockForKey c k = Some b \<Longrightarrow> blockKey b = k"
  by (auto simp add: getBlockForKey_def find_Some_iff)

lemma handleEditorChange_linkState:
  "handleEditorChange eng p es (this\<lparr>linkState := l\<rparr>)
     = (handleEditorChange eng p es this)\<lparr>linkState := l\<rparr>"
  by (simp add: handleEditorChange_def Let_def)

lemma trim_empty_iff: "trim s = [] \<longleftrightarrow> (\<forall>c \<in> set s. isWhiteSpace c)"
proof
  assume "trim s = []"
  then have a: "\<forall>c \<in> set (dropWhile isWhiteSpace s). isWhiteSpace c"
    by (simp add: trim_def)
  have "dropWhile isWhiteSpace s = []"
  proof (rule ccontr)
    assume n: "dropWhile isWhiteSpace s \<noteq> []"
    then have "\<not> isWhiteSpace (hd (dropWhile isWhiteSpace s))" by (rule hd_dropWhile)
    moreover have "hd (dropWhile isWhiteSpace s) \<in> set (dropWhile isWhiteSpace s)"
      using n by (rule hd_in_set)
    ultimately show False using a by blast
  qed
  then show "\<forall>c \<in> set s. isWhiteSpace c" by simp
next
  assume "\<forall>c \<in> set s. isWhiteSpace c"
  then show "trim s = []" by (auto simp add: trim_def dest: set_dropWhileD)
qed

lemma example_linkRun:
  "linkRunAround (linkKeys example_content example_block) 5 ''1'' = (3, 7)"
  by (simp add: linkRunAround_def linkKeys_def getEntity_def example_defs)

section \<open>Change notifications\<close>

text \<open>
  C1. The claim: \<^verbatim>\<open>onChange\<close> is invoked once per materially changed revision; two
  successive notifications never carry the same serialized content, and an edit whose
  serialized content equals the last notified value is not notified. The source announces
  it ("limit change events to only times it changed") in front of an unconditional call.
  Evaluated here: the same revision handed to \<^verbatim>\<open>handleEditorChange\<close> twice, as a
  caret move does, reaches the host twice with identical content, in TextEditor.js and
  in TextEditor.jsx.
\<close>

theorem duplicate_notifications_for_identical_content:
  "notified (handleEditorChange example_engine example_props example_editorState
              (handleEditorChange example_engine example_props example_editorState
                 example_component))
     = [JStr ''<p>go a.io x</p>'', JStr ''<p>go a.io x</p>'']
   \<and> notified (handleEditorChange_jsx example_engine example_props example_editorState
              (handleEditorChange_jsx example_engine example_props example_editorState
                 example_component))
     = [JStr ''<p>go a.io x</p>'', JStr ''<p>go a.io x</p>'']"
  by (simp add: handleEditorChange_def handleEditorChange_jsx_def convertContentTo_jsx_def
        Let_def blockText_def example_defs)

section \<open>Converters\<close>

text \<open>
  C2, the claim as stated: \<^verbatim>\<open>convertContentFrom\<close> never throws. It fails at the
  truthy value \<^verbatim>\<open>"{"\<close> with type \<^verbatim>\<open>json\<close> when the JSON parser throws on it: the
  exception leaves \<^verbatim>\<open>convertContentFrom\<close>.
\<close>

theorem convertContentFrom_throws_on_malformed_json:
  "convertContentFrom example_engine (example_props\<lparr>type_prop := ''json''\<rparr>)
     = Inl (Exn ''TypeError'')"
  by (simp add: convertContentFrom_def example_defs)

text \<open>
  C2, amended: \<^verbatim>\<open>convertContentFrom\<close> handles no exception itself. It throws exactly
  when the value is truthy, the type is \<^verbatim>\<open>json\<close> or \<^verbatim>\<open>html\<close>, and the parser of that
  format throws on the value, and then it throws what the parser threw; for a falsy value
  and for every other type it returns.
\<close>

theorem convertContentFrom_throws_iff:
  "convertContentFrom eng p = Inl e \<longleftrightarrow>
     truthy (value_prop p) \<and>
     (type_prop p = ''json'' \<and> convertFromRaw eng (value_prop p) = Inl e
      \<or> type_prop p = ''html'' \<and> convertFromHTML eng (value_prop p) = Inl e)"
  by (cases "convertFromRaw eng (value_prop p)"; cases "convertFromHTML eng (value_prop p)")
     (auto simp add: convertContentFrom_def)

theorem convertContentFrom_throws_iff_witness:
  "truthy (value_prop (example_props\<lparr>type_prop := ''json''\<rparr>))
   \<and> convertFromRaw example_engine (value_prop (example_props\<lparr>type_prop := ''json''\<rparr>))
       = Inl (Exn ''TypeError'')
   \<and> convertContentFrom example_engine (example_props\<lparr>type_prop := ''json''\<rparr>)
       = Inl (Exn ''TypeError'')
   \<and> convertContentFrom example_engine (example_props\<lparr>type_prop := ''text''\<rparr>)
       \<noteq> Inl (Exn ''TypeError'')"
  using convertContentFrom_throws_iff
          [of example_engine "example_props\<lparr>type_prop := ''json''\<rparr>" "Exn ''TypeError''"]
        convertContentFrom_throws_iff
          [of example_engine "example_props\<lparr>type_prop := ''text''\<rparr>" "Exn ''TypeError''"]
  by (simp add: example_defs)

text \<open>
  C6. The claim: with type \<^verbatim>\<open>text\<close>, \<^verbatim>\<open>convertContentTo\<close> returns the blocks' text
  with all tags and styles stripped. The source calls \<^verbatim>\<open>convertHTMLToString\<close> on the
  document object, not on a string, so the function's first test returns the document
  itself: for every document the result is the document. On the example document the
  result is not the text \<^verbatim>\<open>go a.io x\<close>, which \<^verbatim>\<open>convertHTMLToString\<close> does produce
  from the document's HTML string.
\<close>

theorem convertContentTo_text_returns_document:
  "convertContentTo eng (p\<lparr>type_prop := ''text''\<rparr>) c = JContent c
   \<and> convertContentTo example_engine (example_props\<lparr>type_prop := ''text''\<rparr>) example_content
       \<noteq> JStr ''go a.io x''
   \<and> convertHTMLToString (convertToHTML example_engine example_content) = JStr ''go a.io x''"
  by (simp add: convertContentTo_def convertHTMLToString_def blockText_def example_defs)

text \<open>
  C9. For every type outside \<^verbatim>\<open>json\<close>, \<^verbatim>\<open>html\<close> and \<^verbatim>\<open>text\<close>,
  \<^verbatim>\<open>convertContentFrom\<close> returns a truthy value itself and \<^verbatim>\<open>convertContentTo\<close>
  (TextEditor.js and TextEditor.jsx) returns the current content itself; so a document
  given as the value comes back unchanged from the round trip.
\<close>

theorem structured_format_identity:
  "type_prop p \<notin> {''json'', ''html'', ''text''} \<Longrightarrow>
     (truthy (value_prop p) \<longrightarrow> convertContentFrom eng p = Inr (value_prop p))
   \<and> convertContentTo eng p c = JContent c
   \<and> convertContentTo_jsx eng p c = JContent c
   \<and> (value_prop p = JContent c \<longrightarrow>
        convertContentFrom eng p = Inr (JContent c) \<and> convertContentTo eng p c = value_prop p)"
  by (auto simp add: convertContentFrom_def convertContentTo_def convertContentTo_jsx_def)

theorem structured_format_identity_witness:
  "''Immutable'' \<notin> {''json'', ''html'', ''text''}
   \<and> convertContentFrom example_engine
        (example_props\<lparr>type_prop := ''Immutable'', value_prop := JContent example_content\<rparr>)
       = Inr (JContent example_content)
   \<and> convertContentTo example_engine
        (example_props\<lparr>type_prop := ''Immutable'', value_prop := JContent example_content\<rparr>)
        example_content = JContent example_content"
  using structured_format_identity
          [of "example_props\<lparr>type_prop := ''Immutable'', value_prop := JContent example_content\<rparr>"
              example_engine example_content]
  by simp

text \<open>
  C10. For every falsy value (the empty string, null and undefined among them) and every
  type, \<^verbatim>\<open>convertContentFrom\<close> returns the document with a single empty unstyled
  block and no entity, whatever the parsers would do.
\<close>

theorem convertContentFrom_falsy_value:
  "(\<not> truthy (value_prop p) \<longrightarrow>
      convertContentFrom eng p =
        Inr (JContent \<lparr>blockMap = [\<lparr>blockKey = generateRandomKey eng 0, blockType = ''unstyled'',
                                   characterList = []\<rparr>],
                       entityMap = []\<rparr>))
   \<and> \<not> truthy (JStr []) \<and> \<not> truthy JNull \<and> \<not> truthy JUndefined"
  by (simp add: convertContentFrom_def ContentState_createFromText_def)

theorem convertContentFrom_falsy_value_witness:
  "\<not> truthy (value_prop (example_props\<lparr>value_prop := JStr [], type_prop := ''json''\<rparr>))
   \<and> convertContentFrom example_engine (example_props\<lparr>value_prop := JStr [], type_prop := ''json''\<rparr>)
       = Inr (JContent \<lparr>blockMap = [\<lparr>blockKey = ''k'', blockType = ''unstyled'',
                                     characterList = []\<rparr>],
                        entityMap = []\<rparr>)"
  using convertContentFrom_falsy_value
          [of "example_props\<lparr>value_prop := JStr [], type_prop := ''json''\<rparr>" example_engine]
  by (simp add: example_engine_def)

section \<open>Key commands and style toggles\<close>

text \<open>
  C7. \<^verbatim>\<open>handleKeyCommand\<close> returns \<^verbatim>\<open>handled\<close> or \<^verbatim>\<open>not-handled\<close>. With the
  command \<^verbatim>\<open>split-block\<close> and type \<^verbatim>\<open>html\<close> the block is split by
  \<^verbatim>\<open>Modifier.splitBlock\<close>, the pushed state goes through \<^verbatim>\<open>handleEditorChange\<close> and
  the result is \<^verbatim>\<open>handled\<close>. In every other case, \<^verbatim>\<open>split-block\<close> with another
  type included, the result is \<^verbatim>\<open>handled\<close> exactly when the engine's default handler
  returns a state, which then goes through \<^verbatim>\<open>handleEditorChange\<close>; otherwise the
  component is unchanged. The second generation of the method returns the same string.
\<close>

theorem handleKeyCommand_result:
  "fst (handleKeyCommand eng p command this) \<in> {''handled'', ''not-handled''}
   \<and> (command = ''split-block'' \<and> type_prop p = ''html'' \<longrightarrow>
        handleKeyCommand eng p command this =
          (''handled'',
           handleEditorChange eng p
             (EditorState_push eng (editorState this)
                (Modifier_splitBlock eng (currentContent (editorState this))
                   (selection (editorState this)))
                ''split-block'')
             this))
   \<and> (\<not> (command = ''split-block'' \<and> type_prop p = ''html'') \<longrightarrow>
        (fst (handleKeyCommand eng p command this) = ''handled''
           \<longleftrightarrow> RichUtils_handleKeyCommand eng (editorState this) command \<noteq> None)
        \<and> handleKeyCommand eng p command this =
            (case RichUtils_handleKeyCommand eng (editorState this) command of
               None \<Rightarrow> (''not-handled'', this)
             | Some n \<Rightarrow> (''handled'', handleEditorChange eng p n this)))
   \<and> fst (handleKeyCommand_v2 eng p command this) = fst (handleKeyCommand eng p command this)"
  by (simp add: handleKeyCommand_def handleKeyCommand_v2_def Let_def split: option.split)

theorem handleKeyCommand_result_witness:
  "handleKeyCommand example_engine example_props ''split-block'' example_component
     = (''handled'',
        handleEditorChange example_engine example_props example_editorState example_component)
   \<and> \<not> (''split-block'' = ''split-block'' \<and> type_prop (example_props\<lparr>type_prop := ''json''\<rparr>) = ''html'')
   \<and> fst (handleKeyCommand example_engine (example_props\<lparr>type_prop := ''json''\<rparr>)
            ''split-block'' example_component) = ''not-handled''
   \<and> fst (handleKeyCommand example_engine example_props ''bold'' example_component) = ''handled''"
proof -
  have a: "RichUtils_handleKeyCommand example_engine (editorState example_component) ''split-block'' = None"
    "RichUtils_handleKeyCommand example_engine (editorState example_component) ''bold''
       = Some (editorState example_component)"
    by (simp_all add: example_engine_def)
  have b: "type_prop example_props = ''html''" by (simp add: example_props_def)
  have c: "EditorState_push example_engine (editorState example_component)
             (Modifier_splitBlock example_engine (currentContent (editorState example_component))
                (selection (editorState example_component))) ''split-block''
           = example_editorState"
    by (simp add: example_engine_def example_component_def)
  show ?thesis
    using handleKeyCommand_result [of example_engine example_props "''split-block''" example_component]
          handleKeyCommand_result [of example_engine "example_props\<lparr>type_prop := ''json''\<rparr>"
             "''split-block''" example_component]
          handleKeyCommand_result [of example_engine example_props "''bold''" example_component]
          a b c
    by simp
qed

text \<open>
  C8. With \<^verbatim>\<open>editable\<close> false, \<^verbatim>\<open>handleInlineStyleClick\<close> and
  \<^verbatim>\<open>handleBlockStyleClick\<close> leave the whole component as it is: revision, selection,
  focus flag, and the list of notifications. With \<^verbatim>\<open>editable\<close> true they hand the
  state returned by the engine's toggle primitive to \<^verbatim>\<open>handleEditorChange\<close>.
\<close>

theorem toggles_respect_editable:
  "(\<not> editable p \<longrightarrow>
      handleInlineStyleClick eng p style this = this
      \<and> handleBlockStyleClick eng p style this = this
      \<and> handleInlineStyleClick_jsx eng p style this = this
      \<and> handleBlockStyleClick_jsx eng p style this = this)
   \<and> (editable p \<longrightarrow>
      handleInlineStyleClick eng p style this =
        handleEditorChange eng p (RichUtils_toggleInlineStyle eng (editorState this) style) this
      \<and> handleBlockStyleClick eng p style this =
        handleEditorChange eng p (RichUtils_toggleBlockType eng (editorState this) style) this
      \<and> handleInlineStyleClick_jsx eng p style this =
        handleEditorChange_jsx eng p (RichUtils_toggleInlineStyle eng (editorState this) style) this
      \<and> handleBlockStyleClick_jsx eng p style this =
        handleEditorChange_jsx eng p (RichUtils_toggleBlockType eng (editorState this) style) this)"
  by (simp add: handleInlineStyleClick_def handleBlockStyleClick_def
        handleInlineStyleClick_jsx_def handleBlockStyleClick_jsx_def)

theorem toggles_respect_editable_witness:
  "\<not> editable (example_props\<lparr>editable := False\<rparr>)
   \<and> handleInlineStyleClick example_engine (example_props\<lparr>editable := False\<rparr>) ''BOLD''
        example_component = example_component
   \<and> handleBlockStyleClick example_engine (example_props\<lparr>editable := False\<rparr>) ''blockquote''
        example_component = example_component
   \<and> editable example_props
   \<and> notified (handleInlineStyleClick example_engine example_props ''BOLD'' example_component)
       = [JStr ''<p>go a.io x</p>'']"
proof -
  have e: "editable example_props" by (simp add: example_props_def)
  have n: "notified (handleEditorChange example_engine example_props
             (RichUtils_toggleInlineStyle example_engine (editorState example_component) ''BOLD'')
             example_component) = [JStr ''<p>go a.io x</p>'']"
    by (simp add: handleEditorChange_def Let_def blockText_def example_defs)
  show ?thesis
    using toggles_respect_editable [of "example_props\<lparr>editable := False\<rparr>" example_engine
            "''BOLD''" example_component]
          toggles_respect_editable [of "example_props\<lparr>editable := False\<rparr>" example_engine
            "''blockquote''" example_component]
          toggles_respect_editable [of example_props example_engine "''BOLD''" example_component]
          e n
    by simp
qed

section \<open>Link actions\<close>

text \<open>
  C3. The cursor is collapsed in front of a character that carries the link entity \<open>k\<close>.
  Then \<^verbatim>\<open>DELETE\<close> hands to \<^verbatim>\<open>handleEditorChange\<close> the revision \<open>fed\<close> in which the
  entity is removed from the whole stretch \<open>s..<t\<close> of the link around the cursor: the
  stretch contains the cursor, all its characters carried \<open>k\<close>, it cannot be extended on
  either side, every character of it has no entity in \<open>fed\<close>, all other characters of
  the block and all texts and styles are as before, and the entity table, with the record
  of \<open>k\<close>, is unchanged. The stored revision is \<open>fed\<close> after \<^verbatim>\<open>convertStyles\<close> and,
  when enabled, \<^verbatim>\<open>convertLinks\<close>.
\<close>

theorem delete_link_removes_whole_span:
  assumes ed: "editable p"
    and col: "isCollapsed (selection (editorState this))"
    and blk: "getBlockForKey (currentContent (editorState this))
                (getStartKey (selection (editorState this))) = Some b"
    and off: "getStartOffset (selection (editorState this)) < length (characterList b)"
    and ent: "entity (characterList b ! getStartOffset (selection (editorState this))) = Some k"
    and tab: "getEntity (currentContent (editorState this)) k = Some e"
    and lnk: "etype e = ''LINK''"
  shows
    "let es = editorState this; c = currentContent es; sel = selection es;
         s = fst (linkRunAround (linkKeys c b) (getStartOffset sel) k);
         t = snd (linkRunAround (linkKeys c b) (getStartOffset sel) k);
         span = \<lparr>anchorKey = blockKey b, anchorOffset = s, focusKey = blockKey b,
                 focusOffset = t, isBackward = False, hasFocus = hasFocus sel\<rparr>;
         fed = RichUtils_toggleLink es span None;
         b' = applyEntityToContentBlock b s t None
     in s \<le> getStartOffset sel \<and> getStartOffset sel < t \<and> t \<le> length (characterList b)
        \<and> (\<forall>i. s \<le> i \<and> i < t \<longrightarrow> entity (characterList b ! i) = Some k)
        \<and> (s = 0 \<or> entity (characterList b ! (s - 1)) \<noteq> Some k)
        \<and> (t = length (characterList b) \<or> entity (characterList b ! t) \<noteq> Some k)
        \<and> handleLinkClick eng p ''DELETE'' this = handleEditorChange eng p fed this
        \<and> editorState (handleLinkClick eng p ''DELETE'' this) =
            (if convertLinksInline p
             then convertLinks eng (convertStyles eng fed span (\<not> onlyInline p))
             else convertStyles eng fed span (\<not> onlyInline p))
        \<and> getBlockForKey (currentContent fed) (blockKey b) = Some b'
        \<and> length (characterList b') = length (characterList b)
        \<and> (\<forall>i < length (characterList b).
              entity (characterList b' ! i) =
                (if s \<le> i \<and> i < t then None else entity (characterList b ! i))
              \<and> ch (characterList b' ! i) = ch (characterList b ! i)
              \<and> styles (characterList b' ! i) = styles (characterList b ! i))
        \<and> entityMap (currentContent fed) = entityMap c
        \<and> getEntity (currentContent fed) k = Some e"
proof -
  define es where "es = editorState this"
  define c where "c = currentContent es"
  define sel where "sel = selection es"
  define ks where "ks = linkKeys c b"
  define o' where "o' = getStartOffset sel"
  define s where "s = fst (linkRunAround ks o' k)"
  define t where "t = snd (linkRunAround ks o' k)"
  define span where "span = \<lparr>anchorKey = blockKey b, anchorOffset = s, focusKey = blockKey b,
                 focusOffset = t, isBackward = False, hasFocus = hasFocus sel\<rparr>"
  define fed where "fed = RichUtils_toggleLink es span None"
  define b' where "b' = applyEntityToContentBlock b s t None"
  note defs = es_def c_def sel_def ks_def o'_def s_def t_def span_def fed_def b'_def
  have lenks: "length ks = length (characterList b)" by (simp add: ks_def length_linkKeys)
  have o_lt: "o' < length ks" using off by (simp add: defs length_linkKeys)
  have kso: "ks ! o' = Some k"
    unfolding ks_def o'_def sel_def c_def es_def
    using off ent tab lnk by (rule linkKeys_nth_link)
  have b1: "s \<le> o'" and b2: "o' < t" and b3: "t \<le> length (characterList b)"
    using linkRunAround_bounds [OF o_lt kso] by (simp_all add: s_def t_def lenks)
  have inside: "\<forall>i. s \<le> i \<and> i < t \<longrightarrow> entity (characterList b ! i) = Some k"
  proof (intro allI impI)
    fix i assume i: "s \<le> i \<and> i < t"
    then have "ks ! i = Some k"
      using linkRunAround_inside [OF o_lt, of k i] by (simp add: s_def t_def)
    moreover have "i < length (characterList b)" using i b3 by simp
    ultimately show "entity (characterList b ! i) = Some k"
      unfolding ks_def by (rule linkKeys_nth_Some [rotated])
  qed
  have left: "s = 0 \<or> entity (characterList b ! (s - 1)) \<noteq> Some k"
  proof (cases "s = 0")
    case True then show ?thesis by simp
  next
    case False
    then have "ks ! (s - 1) \<noteq> Some k"
      using linkRunAround_maximal_left [OF o_lt, of k] by (simp add: s_def)
    moreover have "s - 1 < length (characterList b)" using b1 off by (simp add: defs)
    ultimately have "entity (characterList b ! (s - 1)) \<noteq> Some k"
      using linkKeys_nth_link [OF _ _ tab lnk, of "s - 1" b] by (auto simp add: defs)
    then show ?thesis by simp
  qed
  have right: "t = length (characterList b) \<or> entity (characterList b ! t) \<noteq> Some k"
  proof (cases "t = length (characterList b)")
    case True then show ?thesis by simp
  next
    case False
    then have tl: "t < length (characterList b)" using b3 by simp
    then have "ks ! t \<noteq> Some k"
      using linkRunAround_maximal_right [OF o_lt, of k] by (simp add: t_def lenks)
    then have "entity (characterList b ! t) \<noteq> Some k"
      using linkKeys_nth_link [OF tl _ tab lnk] by (auto simp add: defs)
    then show ?thesis by simp
  qed
  have gl: "getLink es sel = Some \<lparr>link_entity = e, link_selection = span\<rparr>"
    unfolding span_def s_def t_def ks_def o'_def c_def
    by (rule getLink_collapsed_on_link)
       (use col blk off kso tab in \<open>simp_all add: defs\<close>)
  have click: "handleLinkClick eng p ''DELETE'' this = handleEditorChange eng p fed this"
    using ed col gl by (simp add: handleLinkClick_def Let_def defs)
  have stored: "editorState (handleLinkClick eng p ''DELETE'' this) =
            (if convertLinksInline p
             then convertLinks eng (convertStyles eng fed span (\<not> onlyInline p))
             else convertStyles eng fed span (\<not> onlyInline p))"
    unfolding click by (simp add: handleEditorChange_def Let_def fed_def RichUtils_toggleLink_def)
  have kb: "blockKey b = getStartKey sel"
    using blk by (simp add: getBlockForKey_blockKey defs)
  have sp1: "getStartKey span = getEndKey span"
    by (simp add: span_def getStartKey_def getEndKey_def)
  have sp2: "getStartKey span = blockKey b" "getStartOffset span = s" "getEndOffset span = t"
    by (simp_all add: span_def getStartKey_def getStartOffset_def getEndOffset_def)
  have blk': "getBlockForKey c (getStartKey span) = Some b"
    using blk unfolding sp2 kb by (simp add: es_def c_def sel_def)
  have gb: "getBlockForKey (currentContent fed) (blockKey b) = Some b'"
    using Modifier_applyEntity_getBlock [OF sp1 blk', of None]
    by (simp add: fed_def RichUtils_toggleLink_def sp2 b'_def c_def)
  have len: "length (characterList b') = length (characterList b)"
    by (simp add: b'_def applyEntityToContentBlock_simps)
  have chars: "\<forall>i < length (characterList b).
              entity (characterList b' ! i) =
                (if s \<le> i \<and> i < t then None else entity (characterList b ! i))
              \<and> ch (characterList b' ! i) = ch (characterList b ! i)
              \<and> styles (characterList b' ! i) = styles (characterList b ! i)"
    by (simp add: b'_def applyEntityToContentBlock_nth)
  have em: "entityMap (currentContent fed) = entityMap c"
    by (simp add: fed_def RichUtils_toggleLink_def Modifier_applyEntity_entityMap c_def)
  have ge: "getEntity (currentContent fed) k = Some e"
    using tab em by (simp add: getEntity_def defs)
  from b1 b2 b3 inside left right click stored gb len chars em ge
  have "s \<le> o' \<and> o' < t \<and> t \<le> length (characterList b)
        \<and> (\<forall>i. s \<le> i \<and> i < t \<longrightarrow> entity (characterList b ! i) = Some k)
        \<and> (s = 0 \<or> entity (characterList b ! (s - 1)) \<noteq> Some k)
        \<and> (t = length (characterList b) \<or> entity (characterList b ! t) \<noteq> Some k)
        \<and> handleLinkClick eng p ''DELETE'' this = handleEditorChange eng p fed this
        \<and> editorState (handleLinkClick eng p ''DELETE'' this) =
            (if convertLinksInline p
             then convertLinks eng (convertStyles eng fed span (\<not> onlyInline p))
             else convertStyles eng fed span (\<not> onlyInline p))
        \<and> getBlockForKey (currentContent fed) (blockKey b) = Some b'
        \<and> length (characterList b') = length (characterList b)
        \<and> (\<forall>i < length (characterList b).
              entity (characterList b' ! i) =
                (if s \<le> i \<and> i < t then None else entity (characterList b ! i))
              \<and> ch (characterList b' ! i) = ch (characterList b ! i)
              \<and> styles (characterList b' ! i) = styles (characterList b ! i))
        \<and> entityMap (currentContent fed) = entityMap c
        \<and> getEntity (currentContent fed) k = Some e"
    by blast
  then show ?thesis
    unfolding Let_def defs .
qed

theorem delete_link_removes_whole_span_witness:
  "editable example_props
   \<and> isCollapsed (selection (editorState example_component))
   \<and> getBlockForKey (currentContent (editorState example_component))
        (getStartKey (selection (editorState example_component))) = Some example_block
   \<and> getStartOffset (selection (editorState example_component)) = 5
   \<and> entity (characterList example_block ! 5) = Some ''1''
   \<and> getEntity (currentContent (editorState example_component)) ''1'' = Some example_entity
   \<and> etype example_entity = ''LINK''
   \<and> handleLinkClick example_engine example_props ''DELETE'' example_component
       = handleEditorChange example_engine example_props
           (RichUtils_toggleLink example_editorState
              \<lparr>anchorKey = ''b1'', anchorOffset = 3, focusKey = ''b1'', focusOffset = 7,
               isBackward = False, hasFocus = True\<rparr> None)
           example_component
   \<and> map entity (characterList (applyEntityToContentBlock example_block 3 7 None))
       = replicate 9 None"
proof -
  have h1: "editable example_props" by (simp add: example_props_def)
  have h2: "isCollapsed (selection (editorState example_component))"
    by (simp add: isCollapsed_def example_component_def example_editorState_def
          example_selection_def)
  have h3: "getBlockForKey (currentContent (editorState example_component))
        (getStartKey (selection (editorState example_component))) = Some example_block"
    by (simp add: getBlockForKey_def getStartKey_def example_component_def
          example_editorState_def example_selection_def example_content_def example_block_def)
  have o: "getStartOffset (selection (editorState example_component)) = 5"
    by (simp add: getStartOffset_def example_component_def example_editorState_def
          example_selection_def)
  have h4: "getStartOffset (selection (editorState example_component))
              < length (characterList example_block)"
    unfolding o by (simp add: example_block_def)
  have h5: "entity (characterList example_block
              ! getStartOffset (selection (editorState example_component))) = Some ''1''"
    unfolding o by (simp add: example_block_def)
  have h6: "getEntity (currentContent (editorState example_component)) ''1'' = Some example_entity"
    by (simp add: getEntity_def example_component_def example_editorState_def
          example_content_def)
  have h7: "etype example_entity = ''LINK''" by (simp add: example_entity_def)
  have c: "currentContent (editorState example_component) = example_content"
    "editorState example_component = example_editorState"
    "hasFocus (selection example_editorState) = True"
    "blockKey example_block = ''b1''"
    "getStartOffset (selection example_editorState) = 5"
    "currentContent example_editorState = example_content"
    by (simp_all add: example_component_def example_editorState_def example_selection_def
          example_block_def getStartOffset_def)
  from delete_link_removes_whole_span [OF h1 h2 h3 h4 h5 h6 h7, of example_engine]
  have "handleLinkClick example_engine example_props ''DELETE'' example_component
       = handleEditorChange example_engine example_props
           (RichUtils_toggleLink example_editorState
              \<lparr>anchorKey = ''b1'', anchorOffset = 3, focusKey = ''b1'', focusOffset = 7,
               isBackward = False, hasFocus = True\<rparr> None)
           example_component"
    unfolding Let_def c example_linkRun by simp
  moreover have "map entity (characterList (applyEntityToContentBlock example_block 3 7 None))
       = replicate 9 None"
    by (simp add: applyEntityToContentBlock_def example_block_def upt_rec numeral_eq_Suc)
  ultimately show ?thesis using h1 h2 h3 o h5 h6 h7 by simp
qed

text \<open>
  C4. An action other than \<^verbatim>\<open>DELETE\<close> (\<^verbatim>\<open>ADD\<close>, \<^verbatim>\<open>EDIT\<close>) whose dialog is
  confirmed with an href that is empty or white space only does what \<^verbatim>\<open>DELETE\<close> does,
  the recorded dialog state apart: the revision handed to \<^verbatim>\<open>handleEditorChange\<close> is
  the current one with the entity removed from the target selection (the entity table
  kept; for a target within one block, exactly the characters between its offsets lose
  their entity). When the dialog is dismissed instead, the component is unchanged.
\<close>

theorem confirmed_blank_href_degrades_to_delete:
  assumes ed: "editable p"
    and act: "linkAction \<noteq> ''DELETE''"
    and res: "\<forall>title url. ModalActions_open eng title url = Resolved r"
    and ls: "(case r of None \<Rightarrow> linkState this | Some s \<Rightarrow> Some s) = Some h"
    and ws: "\<forall>c \<in> set h. isWhiteSpace c"
  shows
    "let es = editorState this; sel = selection es;
         target = (case getLink es sel of
                     None \<Rightarrow> sel
                   | Some l \<Rightarrow> if isCollapsed sel then link_selection l else sel);
         fed = RichUtils_toggleLink es target None
     in handleLinkClick eng p linkAction this
          = (handleLinkClick eng p ''DELETE'' this)\<lparr>linkState := Some h\<rparr>
        \<and> handleLinkClick eng p linkAction this
          = handleEditorChange eng p fed (this\<lparr>linkState := Some h\<rparr>)
        \<and> entityMap (currentContent fed) = entityMap (currentContent es)
        \<and> (\<forall>b. getStartKey target = getEndKey target
                 \<and> getBlockForKey (currentContent es) (getStartKey target) = Some b
               \<longrightarrow> (\<exists>b'. getBlockForKey (currentContent fed) (getStartKey target) = Some b'
                         \<and> length (characterList b') = length (characterList b)
                         \<and> (\<forall>i < length (characterList b).
                               entity (characterList b' ! i) =
                                 (if getStartOffset target \<le> i \<and> i < getEndOffset target
                                  then None else entity (characterList b ! i)))))
        \<and> handleLinkClick (eng\<lparr>ModalActions_open := \<lambda>title url. Rejected None\<rparr>) p linkAction this
          = this"
proof -
  define es where "es = editorState this"
  define sel where "sel = selection es"
  define target where "target = (case getLink es sel of
                     None \<Rightarrow> sel
                   | Some l \<Rightarrow> if isCollapsed sel then link_selection l else sel)"
  define fed where "fed = RichUtils_toggleLink es target None"
  note defs = es_def sel_def target_def fed_def
  obtain title url where tu:
    "(if linkAction = ''ADD'' then (''Add Link'', [])
      else (case getLink es sel of
              None \<Rightarrow> (''Add Link'', [])
            | Some l \<Rightarrow> (''Edit Link'', href (link_entity l)))) = (title, url)"
    by (metis surj_pair)
  have this1: "(case r of None \<Rightarrow> this | Some s \<Rightarrow> handleLinkChange s this)
                 = this\<lparr>linkState := Some h\<rparr>"
    using ls by (cases r) (simp_all add: handleLinkChange_def)
  have tr: "trim h = []" using ws by (simp add: trim_empty_iff)
  have del: "handleLinkClick eng p ''DELETE'' this = handleEditorChange eng p fed this"
    unfolding defs using ed by (simp add: handleLinkClick_def Let_def)
  have conf: "handleLinkClick eng p linkAction this
                = handleEditorChange eng p fed (this\<lparr>linkState := Some h\<rparr>)"
    using ed act res tu tr unfolding defs
    by (simp add: handleLinkClick_def Let_def this1)
  have c1: "handleLinkClick eng p linkAction this
              = (handleLinkClick eng p ''DELETE'' this)\<lparr>linkState := Some h\<rparr>"
    by (simp add: conf del handleEditorChange_linkState)
  have em: "entityMap (currentContent fed) = entityMap (currentContent es)"
    by (simp add: fed_def RichUtils_toggleLink_def Modifier_applyEntity_entityMap)
  have blkp: "\<forall>b. getStartKey target = getEndKey target
                 \<and> getBlockForKey (currentContent es) (getStartKey target) = Some b
               \<longrightarrow> (\<exists>b'. getBlockForKey (currentContent fed) (getStartKey target) = Some b'
                         \<and> length (characterList b') = length (characterList b)
                         \<and> (\<forall>i < length (characterList b).
                               entity (characterList b' ! i) =
                                 (if getStartOffset target \<le> i \<and> i < getEndOffset target
                                  then None else entity (characterList b ! i))))"
  proof (intro allI impI, elim conjE)
    fix b
    assume a: "getStartKey target = getEndKey target"
      and b: "getBlockForKey (currentContent es) (getStartKey target) = Some b"
    let ?b' = "applyEntityToContentBlock b (getStartOffset target) (getEndOffset target) None"
    have "getBlockForKey (currentContent fed) (getStartKey target) = Some ?b'"
      using Modifier_applyEntity_getBlock [OF a b, of None]
      by (simp add: fed_def RichUtils_toggleLink_def)
    moreover have "length (characterList ?b') = length (characterList b)"
      by (simp add: applyEntityToContentBlock_simps)
    moreover have "\<forall>i < length (characterList b).
                     entity (characterList ?b' ! i) =
                       (if getStartOffset target \<le> i \<and> i < getEndOffset target
                        then None else entity (characterList b ! i))"
      by (simp add: applyEntityToContentBlock_nth)
    ultimately show "\<exists>b'. getBlockForKey (currentContent fed) (getStartKey target) = Some b'
                         \<and> length (characterList b') = length (characterList b)
                         \<and> (\<forall>i < length (characterList b).
                               entity (characterList b' ! i) =
                                 (if getStartOffset target \<le> i \<and> i < getEndOffset target
                                  then None else entity (characterList b ! i)))"
      by blast
  qed
  have canc: "handleLinkClick (eng\<lparr>ModalActions_open := \<lambda>title url. Rejected None\<rparr>) p linkAction this
                = this"
    using ed act tu unfolding defs by (simp add: handleLinkClick_def Let_def)
  from c1 conf em blkp canc show ?thesis
    unfolding Let_def defs by blast
qed

theorem confirmed_blank_href_degrades_to_delete_witness:
  "editable example_props
   \<and> ''EDIT'' \<noteq> ''DELETE''
   \<and> (\<forall>title url. ModalActions_open example_engine title url = Resolved (Some ''  ''))
   \<and> list_all isWhiteSpace ''  ''
   \<and> handleLinkClick example_engine example_props ''EDIT'' example_component
       = (handleLinkClick example_engine example_props ''DELETE'' example_component)
           \<lparr>linkState := Some ''  ''\<rparr>
   \<and> handleLinkClick (example_engine\<lparr>ModalActions_open := \<lambda>title url. Rejected None\<rparr>)
        example_props ''EDIT'' example_component = example_component"
proof -
  have h1: "editable example_props" by (simp add: example_props_def)
  have h2: "''EDIT'' \<noteq> ''DELETE''" by simp
  have h3: "\<forall>title url. ModalActions_open example_engine title url = Resolved (Some ''  '')"
    by (simp add: example_engine_def)
  have h4: "(case Some ''  '' of None \<Rightarrow> linkState example_component | Some s \<Rightarrow> Some s)
              = Some ''  ''" by simp
  have h5: "\<forall>c \<in> set ''  ''. isWhiteSpace c" by (simp add: isWhiteSpace_def)
  from confirmed_blank_href_degrades_to_delete [OF h1 h2 h3 h4 h5]
  have "handleLinkClick example_engine example_props ''EDIT'' example_component
       = (handleLinkClick example_engine example_props ''DELETE'' example_component)
           \<lparr>linkState := Some ''  ''\<rparr>
   \<and> handleLinkClick (example_engine\<lparr>ModalActions_open := \<lambda>title url. Rejected None\<rparr>)
        example_props ''EDIT'' example_component = example_component"
    unfolding Let_def by blast
  then show ?thesis using h1 h2 h3 h5 by (simp add: list_all_iff)
qed

text \<open>
  C5. When the dialog of an action other than \<^verbatim>\<open>DELETE\<close> is dismissed, the revision,
  the focus flag and the notifications are as before: no entity is created, no character
  changes its entity, no text is inserted; and when the dialog has reported no state, the
  whole component is as before.
\<close>

theorem cancelled_prompt_changes_nothing:
  assumes "linkAction \<noteq> ''DELETE''"
    and "\<forall>title url. \<exists>r. ModalActions_open eng title url = Rejected r"
  shows "editorState (handleLinkClick eng p linkAction this) = editorState this
       \<and> focus (handleLinkClick eng p linkAction this) = focus this
       \<and> notified (handleLinkClick eng p linkAction this) = notified this
       \<and> ((\<forall>title url. ModalActions_open eng title url = Rejected None)
            \<longrightarrow> handleLinkClick eng p linkAction this = this)"
proof -
  obtain title url where tu:
    "(title, url) =
       (if linkAction = ''ADD'' then (''Add Link'', [])
        else (case getLink (editorState this) (selection (editorState this)) of
                None \<Rightarrow> (''Add Link'', [])
              | Some l \<Rightarrow> (''Edit Link'', href (link_entity l))))"
    by (metis surj_pair)
  from assms(2) obtain r where r: "ModalActions_open eng title url = Rejected r" by blast
  have "handleLinkClick eng p linkAction this =
          (if \<not> editable p then this
           else (case r of None \<Rightarrow> this | Some s \<Rightarrow> handleLinkChange s this))"
    using assms(1) r tu [symmetric] by (simp add: handleLinkClick_def Let_def)
  then show ?thesis
    using r by (cases r) (auto simp add: handleLinkChange_def)
qed

theorem cancelled_prompt_changes_nothing_witness:
  "''ADD'' \<noteq> ''DELETE''
   \<and> (\<forall>title url. \<exists>r.
         ModalActions_open (example_engine\<lparr>ModalActions_open := \<lambda>title url. Rejected None\<rparr>)
           title url = Rejected r)
   \<and> handleLinkClick (example_engine\<lparr>ModalActions_open := \<lambda>title url. Rejected None\<rparr>)
        example_props ''ADD'' example_component = example_component"
proof -
  have h1: "''ADD'' \<noteq> ''DELETE''" by simp
  have h2: "\<forall>title url. \<exists>r.
         ModalActions_open (example_engine\<lparr>ModalActions_open := \<lambda>title url. Rejected None\<rparr>)
           title url = Rejected r" by simp
  from cancelled_prompt_changes_nothing [OF h1 h2, of example_props example_component]
  show ?thesis using h1 h2 by simp
qed

end
